theory Spec2Isabelle
  imports Main "HOL-Library.Multiset"
begin

section \<open>The REST data source (class SyncthingFromREST)\<close>

subsection \<open>Values exchanged with the host\<close>

text \<open>
  A parsed JSON body, as \<^verbatim>\<open>response.json\<close> holds it. An object keeps its members in
  the order of the text, so a repeated key is resolved as \<^verbatim>\<open>JSON.parse\<close> does: the last
  member wins.
\<close>

datatype json =
    JNull
  | JBool bool
  | JNum int
  | JStr string
  | JArr "json list"
  | JObj "(string \<times> json) list"

text \<open>
  What a promise of the data source can reject with. \<^verbatim>\<open>RestFailure\<close> is the one failure
  class the data source constructs; its constructor receives either a string (the joined
  issue messages, the response text) or the value a \<^verbatim>\<open>catch\<close> handler caught.
  \<open>HostError\<close> stands for whatever \<^verbatim>\<open>requestUrl\<close> itself rejects with, and \<open>TypeError\<close>
  for the runtime error of reading a property of \<^verbatim>\<open>null\<close>.
\<close>

datatype js_error =
    HostError string
  | TypeError
  | Thrown failure
and failure =
    RestFailure ctor_arg
and ctor_arg =
    Text string
  | ErrorValue js_error

text \<open>
  The settings, a request and the host's response. The port is kept as the text the
  template literal prints. Of a request only what varies is kept: the URL, the verb and the
  \<^verbatim>\<open>X-API-Key\<close> header (the other headers are constants). The fields \<^verbatim>\<open>text\<close> and
  \<^verbatim>\<open>json\<close> of a response are named \<open>text_body\<close> and \<open>json_body\<close>.
\<close>

record Url =
  protocol :: string
  ip_address :: string
  port :: string

record Settings =
  api_key :: "string option"
  url :: "Url option"

record Request =
  req_url :: string
  req_method :: string
  x_api_key :: "string option"

record Response =
  status :: int
  text_body :: string
  json_body :: json

text \<open>
  The host: \<^verbatim>\<open>requestUrl\<close> of the embedding application and \<^verbatim>\<open>Platform.isMobileApp\<close>.
  The answer may depend on how many requests were issued before, so that a host which
  fails once and then succeeds is covered; \<open>issued\<close> records every request made.
\<close>

record Host =
  requestUrl :: "nat \<Rightarrow> Request \<Rightarrow> js_error + Response"
  isMobileApp :: bool
  issued :: "Request list"

text \<open>A template literal prints a missing value as the word undefined.\<close>

definition tmpl :: "string option \<Rightarrow> string" where
  "tmpl v = (case v of None \<Rightarrow> ''undefined'' | Some s \<Rightarrow> s)"

subsection \<open>requestEndpoint\<close>

text \<open>
  The two handlers of the promise chain
  \<^verbatim>\<open>response.then(check).catch(wrap)\<close>, and the chain itself: \<^verbatim>\<open>catch\<close> handles a
  rejection of the request and also whatever the \<^verbatim>\<open>then\<close> handler throws.
\<close>

definition then_handler :: "Response \<Rightarrow> js_error + Response" where
  "then_handler response =
     (if status response \<ge> 400 then Inl (Thrown (RestFailure (Text (text_body response))))
      else Inr response)"

definition catch_handler :: "js_error \<Rightarrow> js_error + Response" where
  "catch_handler error = Inl (Thrown (RestFailure (ErrorValue error)))"

definition then_catch :: "js_error + Response \<Rightarrow> js_error + Response" where
  "then_catch p =
     (case p of
        Inl error \<Rightarrow> catch_handler error
      | Inr response \<Rightarrow>
          (case then_handler response of
             Inl error \<Rightarrow> catch_handler error
           | Inr r \<Rightarrow> Inr r))"

definition endpoint_url :: "Settings \<Rightarrow> bool \<Rightarrow> string \<Rightarrow> string" where
  "endpoint_url settings mobile endpoint =
     (let ip = map_option ip_address (url settings);
          ip' = (if ip = Some ''localhost'' \<and> mobile then Some ''127.0.0.1'' else ip)
      in tmpl (map_option protocol (url settings)) @ ''://'' @ tmpl ip' @ '':'' @
         tmpl (map_option port (url settings)) @ endpoint)"

definition requestEndpoint ::
  "Settings \<Rightarrow> string \<Rightarrow> Host \<Rightarrow> (js_error + Response) \<times> Host" where
  "requestEndpoint settings endpoint host =
     (let req = \<lparr>req_url = endpoint_url settings (isMobileApp host) endpoint,
                 req_method = ''GET'',
                 x_api_key = api_key settings\<rparr>;
          response = requestUrl host (length (issued host)) req
      in (then_catch response, host\<lparr>issued := issued host @ [req]\<rparr>))"

subsection \<open>Schemas and the resource methods\<close>

text \<open>
  The schemas (\<^verbatim>\<open>SyncthingFolder\<close>, \<^verbatim>\<open>SyncthingDevice\<close>, \<^verbatim>\<open>SyncthingConfiguration\<close>,
  \<^verbatim>\<open>SyncthingSystemStatus\<close>) are declared in a module that is not part of the sources,
  and \<^verbatim>\<open>safeParseAsync\<close> belongs to the validation library. A schema is therefore a
  parameter: any function from a JSON value to either the list of issues or the parsed
  output. Where the code wraps a schema in \<^verbatim>\<open>array(...)\<close>, the parameter is the wrapped
  schema.
\<close>

record Issue =
  message :: string

datatype 'a SafeParseResult =
    ParseSuccess 'a
  | ParseFailure "Issue list"

type_synonym 'a schema = "json \<Rightarrow> 'a SafeParseResult"

definition safeParseAsync :: "'a schema \<Rightarrow> json \<Rightarrow> 'a SafeParseResult" where
  "safeParseAsync schema input = schema input"

text \<open>\<^verbatim>\<open>Array.prototype.join\<close> on strings.\<close>

fun join :: "string \<Rightarrow> string list \<Rightarrow> string" where
  "join sep [] = []"
| "join sep [x] = x"
| "join sep (x # y # ys) = x @ sep @ join sep (y # ys)"

text \<open>
  The body shared by the four validating methods: parse, and on failure throw a
  \<open>RestFailure\<close> built from the issue messages joined by a line feed.
\<close>

definition validated :: "'a schema \<Rightarrow> Response \<Rightarrow> js_error + 'a" where
  "validated schema response =
     (case safeParseAsync schema (json_body response) of
        ParseFailure issues \<Rightarrow>
          Inl (Thrown (RestFailure (Text (join [CHR 0x0A] (map message issues)))))
      | ParseSuccess output \<Rightarrow> Inr output)"

definition getAllFolders ::
  "Settings \<Rightarrow> 'f list schema \<Rightarrow> Host \<Rightarrow> (js_error + 'f list) \<times> Host" where
  "getAllFolders settings array_SyncthingFolder host =
     (case requestEndpoint settings ''/rest/config/folders'' host of
        (Inl error, host') \<Rightarrow> (Inl error, host')
      | (Inr response, host') \<Rightarrow> (validated array_SyncthingFolder response, host'))"

definition getDevices ::
  "Settings \<Rightarrow> 'd list schema \<Rightarrow> Host \<Rightarrow> (js_error + 'd list) \<times> Host" where
  "getDevices settings array_SyncthingDevice host =
     (case requestEndpoint settings ''/rest/config/devices'' host of
        (Inl error, host') \<Rightarrow> (Inl error, host')
      | (Inr response, host') \<Rightarrow> (validated array_SyncthingDevice response, host'))"

definition getConfiguration ::
  "Settings \<Rightarrow> 'c schema \<Rightarrow> Host \<Rightarrow> (js_error + 'c) \<times> Host" where
  "getConfiguration settings SyncthingConfiguration host =
     (case requestEndpoint settings ''/rest/config'' host of
        (Inl error, host') \<Rightarrow> (Inl error, host')
      | (Inr response, host') \<Rightarrow> (validated SyncthingConfiguration response, host'))"

definition getSystemStatus ::
  "Settings \<Rightarrow> 's schema \<Rightarrow> Host \<Rightarrow> (js_error + 's) \<times> Host" where
  "getSystemStatus settings SyncthingSystemStatus host =
     (case requestEndpoint settings ''/rest/system/status'' host of
        (Inl error, host') \<Rightarrow> (Inl error, host')
      | (Inr response, host') \<Rightarrow> (validated SyncthingSystemStatus response, host'))"

text \<open>
  \<^verbatim>\<open>getFoldersForDevice\<close> reads two fields only: \<^verbatim>\<open>deviceID\<close> of a device and
  \<^verbatim>\<open>devices\<close> of a folder. Both records are extensible, so the definition holds for any
  folder and device type with these fields.
\<close>

record SyncthingDevice =
  deviceID :: string

record 'm SyncthingFolder =
  devices :: "'m SyncthingDevice_scheme list"

definition getFoldersForDevice ::
  "Settings \<Rightarrow> ('m, 'z) SyncthingFolder_scheme list schema \<Rightarrow> 'n SyncthingDevice_scheme \<Rightarrow>
     Host \<Rightarrow> (js_error + ('m, 'z) SyncthingFolder_scheme list) \<times> Host" where
  "getFoldersForDevice settings array_SyncthingFolder device host =
     (case getAllFolders settings array_SyncthingFolder host of
        (Inl error, host') \<Rightarrow> (Inl error, host')
      | (Inr folders, host') \<Rightarrow>
          (Inr (filter
                  (\<lambda>folder. list_ex (\<lambda>deviceInFolder. deviceID deviceInFolder = deviceID device)
                                     (devices folder))
                  folders),
           host'))"

text \<open>
  \<^verbatim>\<open>response.json["ping"]\<close>: a property read. On \<^verbatim>\<open>null\<close> it throws; on an object it
  yields the member (the last one of that name) or \<^verbatim>\<open>undefined\<close>, written \<open>None\<close>; a
  string, number, boolean or array has no property of a non-numeric name such as ping.
\<close>

fun json_index :: "json \<Rightarrow> string \<Rightarrow> js_error + json option" where
  "json_index JNull key = Inl TypeError"
| "json_index (JObj members) key = Inr (map_of (rev members) key)"
| "json_index j key = Inr None"

definition ping :: "Settings \<Rightarrow> Host \<Rightarrow> (js_error + json option) \<times> Host" where
  "ping settings host =
     (case requestEndpoint settings ''/rest/system/ping'' host of
        (Inl error, host') \<Rightarrow> (Inl error, host')
      | (Inr response, host') \<Rightarrow> (json_index (json_body response) ''ping'', host'))"

text \<open>Fixtures for the concrete runs below.\<close>

definition example_settings :: Settings where
  "example_settings =
     \<lparr>api_key = Some ''secret'',
      url = Some \<lparr>protocol = ''http'', ip_address = ''localhost'', port = ''8384''\<rparr>\<rparr>"

definition host_answering :: "js_error + Response \<Rightarrow> Host" where
  "host_answering answer = \<lparr>requestUrl = (\<lambda>n req. answer), isMobileApp = False, issued = []\<rparr>"

definition example_array_schema :: "json list schema" where
  "example_array_schema j =
     (case j of
        JArr items \<Rightarrow> ParseSuccess items
      | _ \<Rightarrow> ParseFailure [\<lparr>message = ''Invalid type''\<rparr>, \<lparr>message = ''Invalid length''\<rparr>])"

definition example_object_body :: Response where
  "example_object_body = \<lparr>status = 200, text_body = ''{}'', json_body = JObj []\<rparr>"

definition example_forbidden :: Response where
  "example_forbidden = \<lparr>status = 403, text_body = ''Forbidden'', json_body = JNull\<rparr>"

definition example_wrong_ping :: Response where
  "example_wrong_ping =
     \<lparr>status = 200,
      text_body = ''{'' @ [CHR 0x22] @ ''ping'' @ [CHR 0x22] @ '': '' @
                  [CHR 0x22] @ ''nope'' @ [CHR 0x22] @ ''}'',
      json_body = JObj [(''ping'', JStr ''nope'')]\<rparr>"

section \<open>The diff modal (class DiffModal)\<close>

subsection \<open>Files, the modal's fields and what a handler asks of the host\<close>

text \<open>
  A file of the vault with its \<^verbatim>\<open>stat\<close>; the field \<^verbatim>\<open>size\<close> is named \<open>size_bytes\<close>, and
  the modal's constructor parameter \<^verbatim>\<open>file\<close> is the field \<open>modal_file\<close>. \<open>Failure\<close> is the
  failure class the view tests for; it carries its message.
\<close>

record FileStats =
  ctime :: int
  mtime :: int
  size_bytes :: int

record TFile =
  path :: string
  name :: string
  basename :: string
  extension :: string
  stat :: FileStats

datatype Failure = Failure string

datatype files_or_failure =
    Files "TFile list"
  | Failed Failure

record DiffModal =
  modal_file :: TFile
  originalFile :: TFile
  conflictingFiles :: files_or_failure
  currentConflictFile :: TFile
  d2hUI :: "string option"
  d2hColorBlind :: bool

text \<open>
  The calls a handler makes on the host, in program order. \<open>SetTimeout c d\<close> schedules the
  callback \<open>c\<close> after \<open>d\<close> milliseconds; \<open>VaultDelete\<close> is \<^verbatim>\<open>app.vault.delete\<close> and
  \<open>RenameFile\<close> is \<^verbatim>\<open>app.fileManager.renameFile\<close>, both of which return a promise.
  \<open>NewDiffModal\<close> constructs a modal that the code never opens.
\<close>

datatype call =
    Close
  | Open
  | NewNotice string nat
  | SetTimeout call nat
  | VaultDelete TFile
  | RenameFile TFile string
  | NewDiffModal TFile

text \<open>The constructor: both file fields start as the file the modal is created for.\<close>

definition new_DiffModal :: "TFile \<Rightarrow> DiffModal" where
  "new_DiffModal f =
     \<lparr>modal_file = f, originalFile = f, conflictingFiles = Files [], currentConflictFile = f,
      d2hUI = None, d2hColorBlind = False\<rparr>"

subsection \<open>onOpen: the list of conflicting files\<close>

text \<open>
  \<^verbatim>\<open>Array.prototype.sort\<close> with a comparator is a stable sort: an insertion sort that puts
  an element before the first one it does not compare greater than. Modification times
  are integral millisecond counts, so the comparator's subtraction is exact.
\<close>

fun insert_by :: "('a \<Rightarrow> 'a \<Rightarrow> int) \<Rightarrow> 'a \<Rightarrow> 'a list \<Rightarrow> 'a list" where
  "insert_by cmp x [] = [x]"
| "insert_by cmp x (y # ys) = (if cmp x y \<le> 0 then x # y # ys else y # insert_by cmp x ys)"

definition js_sort :: "('a \<Rightarrow> 'a \<Rightarrow> int) \<Rightarrow> 'a list \<Rightarrow> 'a list" where
  "js_sort cmp xs = foldr (insert_by cmp) xs []"

definition by_mtime :: "TFile \<Rightarrow> TFile \<Rightarrow> int" where
  "by_mtime a b = mtime (stat a) - mtime (stat b)"

text \<open>
  The controller (\<^verbatim>\<open>getDiffFiles\<close>) is not part of the sources; its answer is a parameter.
  The view is either the failure notice or the three columns: the rows of the left column
  in display order, the markup of the middle column and the file described on the right.
\<close>

record GetDiffFiles =
  got_originalFile :: TFile
  got_conflictingFiles :: files_or_failure

datatype modal_view =
    FailedToGetDiff string
  | Columns "TFile list" string TFile

definition onOpen :: "GetDiffFiles \<Rightarrow> DiffModal \<Rightarrow> DiffModal \<times> modal_view" where
  "onOpen got m =
     (let m1 = m\<lparr>originalFile := got_originalFile got,
                 conflictingFiles := got_conflictingFiles got\<rparr>
      in case conflictingFiles m1 of
           Failed (Failure msg) \<Rightarrow> (m1, FailedToGetDiff msg)
         | Files fs \<Rightarrow>
             (let sorted_files = js_sort by_mtime fs;
                  m2 = m1\<lparr>conflictingFiles := Files sorted_files\<rparr>
              in (m2, Columns sorted_files
                        (case d2hUI m2 of None \<Rightarrow> [] | Some markup \<Rightarrow> markup)
                        (originalFile m2))))"

subsection \<open>The button handlers\<close>

text \<open>
  A handler's outcome: what the callback returns (\<open>None\<close> when it returns nothing), the
  modal's fields afterwards and the calls made. \<open>resolveConflict_onClick\<close> is the row's
  button; the markup computed by \<^verbatim>\<open>getDiffContent\<close> is a parameter. In Accept left the
  callback of the second timer reads \<^verbatim>\<open>currentConflictFile\<close> when it fires; no handler
  assigns that field after the click except a row's button, so the notice is written with
  the field's value at the click.
\<close>

record Ran =
  returned :: "Failure option"
  modal :: DiffModal
  calls :: "call list"

definition resolveConflict_onClick :: "TFile \<Rightarrow> string \<Rightarrow> DiffModal \<Rightarrow> Ran" where
  "resolveConflict_onClick row_file markup m =
     \<lparr>returned = None,
      modal = m\<lparr>currentConflictFile := row_file, d2hUI := Some markup\<rparr>,
      calls = [Close, Open]\<rparr>"

definition acceptLeft_onClick :: "DiffModal \<Rightarrow> Ran" where
  "acceptLeft_onClick m =
     (let filenamePath = path (originalFile m)
      in \<lparr>returned = None,
          modal = m\<lparr>originalFile := currentConflictFile m\<rparr>,
          calls =
            [Close,
             NewNotice ''Resolving conflict : Accepting left'' 5000,
             SetTimeout (NewNotice (''Deleting '' @ filenamePath @ ''...'') 5000) 500,
             VaultDelete (originalFile m),
             SetTimeout
               (NewNotice (''Renaming '' @ path (currentConflictFile m) @ '' to '' @
                           filenamePath @ ''...'') 5000) 1000,
             RenameFile (currentConflictFile m) filenamePath,
             SetTimeout (NewNotice ''Conflict resolved : Accepted left'' 5000) 2000,
             NewDiffModal (currentConflictFile m)]\<rparr>)"

definition acceptOriginal_onClick :: "DiffModal \<Rightarrow> Ran" where
  "acceptOriginal_onClick m =
     \<lparr>returned = None,
      modal = m,
      calls =
        [Close,
         NewNotice ''Resolving conflict : Accepting original'' 5000,
         SetTimeout (NewNotice (''Deleting '' @ path (currentConflictFile m) @ ''...'') 5000) 1000,
         VaultDelete (currentConflictFile m),
         NewDiffModal (originalFile m)]\<rparr>"

subsection \<open>Running a handler against a file store\<close>

text \<open>
  A handler is one synchronous block: every call of it is issued before any promise it
  created settles. Neither handler awaits a promise or attaches a continuation to one, so
  the file operations take effect after the block, here in the order they were issued, and
  a rejection has no handler. Timers only show notices when they fire and are not run. The
  file store is a parameter: any pair of operations on any type of store contents.
\<close>

datatype outcome = Fulfilled | Rejected string

record 'v FileStore =
  delete_file :: "TFile \<Rightarrow> 'v \<Rightarrow> outcome \<times> 'v"
  rename_file :: "TFile \<Rightarrow> string \<Rightarrow> 'v \<Rightarrow> outcome \<times> 'v"

datatype event =
    Issued call
  | Settled call outcome
  | UnhandledRejection call

definition settled :: "call \<Rightarrow> outcome \<Rightarrow> event list" where
  "settled c res =
     (case res of
        Fulfilled \<Rightarrow> [Settled c Fulfilled]
      | Rejected why \<Rightarrow> [Settled c (Rejected why), UnhandledRejection c])"

fun settle :: "'v FileStore \<Rightarrow> call list \<Rightarrow> 'v \<Rightarrow> event list \<times> 'v" where
  "settle fs [] v = ([], v)"
| "settle fs (VaultDelete f # cs) v =
     (case delete_file fs f v of
        (res, v') \<Rightarrow>
          (case settle fs cs v' of (es, v'') \<Rightarrow> (settled (VaultDelete f) res @ es, v'')))"
| "settle fs (RenameFile f p # cs) v =
     (case rename_file fs f p v of
        (res, v') \<Rightarrow>
          (case settle fs cs v' of (es, v'') \<Rightarrow> (settled (RenameFile f p) res @ es, v'')))"
| "settle fs (c # cs) v = settle fs cs v"

definition run_handler :: "'v FileStore \<Rightarrow> call list \<Rightarrow> 'v \<Rightarrow> event list \<times> 'v" where
  "run_handler fs cs v = (case settle fs cs v of (es, v') \<Rightarrow> (map Issued cs @ es, v'))"

text \<open>The file operations among a handler's calls.\<close>

fun is_file_op :: "call \<Rightarrow> bool" where
  "is_file_op (VaultDelete f) = True"
| "is_file_op (RenameFile f p) = True"
| "is_file_op c = False"

text \<open>
  A reference store for the concrete runs: contents keyed by path. Deleting an absent
  path is rejected; renaming is rejected when the source is absent or the target taken.
\<close>

type_synonym vault = "string \<Rightarrow> string option"

definition path_store :: "vault FileStore" where
  "path_store =
     \<lparr>delete_file = (\<lambda>f v.
        if v (path f) = None then (Rejected ''no such file'', v)
        else (Fulfilled, v(path f := None))),
      rename_file = (\<lambda>f p v.
        case v (path f) of
          None \<Rightarrow> (Rejected ''no such file'', v)
        | Some content \<Rightarrow>
            if v p = None then (Fulfilled, v(path f := None, p := Some content))
            else (Rejected ''destination exists'', v))\<rparr>"

text \<open>A store whose rename always fails, whatever the contents.\<close>

definition rename_failing_store :: "vault FileStore" where
  "rename_failing_store =
     path_store\<lparr>rename_file := (\<lambda>f p v. (Rejected ''rename failed'', v))\<rparr>"

definition example_note :: TFile where
  "example_note =
     \<lparr>path = ''note.md'', name = ''note.md'', basename = ''note'', extension = ''md'',
      stat = \<lparr>ctime = 10, mtime = 50, size_bytes = 3\<rparr>\<rparr>"

definition example_conflict :: TFile where
  "example_conflict =
     \<lparr>path = ''note.sync-conflict-20240101-113000-ABCDEF.md'',
      name = ''note.sync-conflict-20240101-113000-ABCDEF.md'',
      basename = ''note.sync-conflict-20240101-113000-ABCDEF'', extension = ''md'',
      stat = \<lparr>ctime = 20, mtime = 40, size_bytes = 5\<rparr>\<rparr>"

definition example_vault :: vault where
  "example_vault =
     (\<lambda>p. if p = ''note.md'' then Some ''one''
          else if p = ''note.sync-conflict-20240101-113000-ABCDEF.md'' then Some ''other''
          else None)"

definition example_got :: GetDiffFiles where
  "example_got =
     \<lparr>got_originalFile = example_note, got_conflictingFiles = Files [example_conflict]\<rparr>"

section \<open>The conflict files modal (class ConflictFilesModal)\<close>

text \<open>
  \<^verbatim>\<open>Array.prototype.slice\<close> for indices within the natural numbers, and a read of the
  first element, which is \<^verbatim>\<open>undefined\<close> (\<open>None\<close>) on an empty array. A row of the list
  shows a file's name and, when clicked, calls \<^verbatim>\<open>showFileDiff\<close> with the original and
  that file.
\<close>

definition slice :: "nat \<Rightarrow> nat \<Rightarrow> 'a list \<Rightarrow> 'a list" where
  "slice start stop xs = take (stop - start) (drop start xs)"

definition first_element :: "'a list \<Rightarrow> 'a option" where
  "first_element xs = (case xs of [] \<Rightarrow> None | x # rest \<Rightarrow> Some x)"

record FileRow =
  row_text :: string
  click_original :: "TFile option"
  click_conflicting :: TFile

definition ConflictFilesModal_onOpen :: "TFile list \<Rightarrow> FileRow list" where
  "ConflictFilesModal_onOpen allFiles =
     (let originalFile = first_element allFiles;
          files = slice 1 (length allFiles) allFiles
      in map (\<lambda>f. \<lparr>row_text = name f, click_original = originalFile, click_conflicting = f\<rparr>)
             files)"

section \<open>The diff engine\<close>

text \<open>
  \<^verbatim>\<open>getDiffContent\<close> reads the two files and passes their base names and contents to
  \<^verbatim>\<open>createTwoFilesPatch\<close>, then the patch to \<^verbatim>\<open>html\<close>. Both functions belong to
  libraries and are parameters here, as is the vault's read, which may reject.
\<close>

definition getDiffContent ::
  "(string \<Rightarrow> string \<Rightarrow> string \<Rightarrow> string \<Rightarrow> 'p) \<Rightarrow> ('p \<Rightarrow> string) \<Rightarrow>
     (TFile \<Rightarrow> js_error + string) \<Rightarrow> TFile \<Rightarrow> TFile \<Rightarrow> js_error + string" where
  "getDiffContent createTwoFilesPatch html read_file file1 file2 =
     (case read_file file1 of
        Inl error \<Rightarrow> Inl error
      | Inr text1 \<Rightarrow>
          (case read_file file2 of
             Inl error \<Rightarrow> Inl error
           | Inr text2 \<Rightarrow>
               Inr (html (createTwoFilesPatch (basename file1) (basename file2) text1 text2))))"

text \<open>The records of a comparison, and the lines of a text (split at line feeds).\<close>

datatype change = Unchanged string | Added string | Removed string

fun split_lines :: "string \<Rightarrow> string \<Rightarrow> string list" where
  "split_lines acc [] = (if acc = [] then [] else [acc])"
| "split_lines acc (c # cs) =
     (if c = CHR 0x0A then acc # split_lines [] cs else split_lines (acc @ [c]) cs)"

text \<open>
  Modelled from the spec: the comparison of two sequences of lines behind
  \<^verbatim>\<open>diff(textA, textB) -> DiffResult\<close>. The code obtains it from \<^verbatim>\<open>createTwoFilesPatch\<close>,
  whose code is not part of the sources, so it is written from the spec's words: the
  comparison is line-based and yields the ordered sequence of line-level change records
  (unchanged, added, removed). Equal first lines are kept; otherwise the shorter of the two
  scripts (remove the first line of A, or add the first line of B) is taken.
\<close>

fun diff_lines :: "string list \<Rightarrow> string list \<Rightarrow> change list" where
  "diff_lines [] ys = map Added ys"
| "diff_lines (x # xs) [] = map Removed (x # xs)"
| "diff_lines (x # xs) (y # ys) =
     (if x = y then Unchanged x # diff_lines xs ys
      else (let r = Removed x # diff_lines xs (y # ys);
                a = Added y # diff_lines (x # xs) ys
            in if length r \<le> length a then r else a))"

text \<open>
  Modelled from the spec: \<^verbatim>\<open>diff(textA, textB)\<close> of the Diff Engine, the line-based
  comparison of the two texts; the library function that computes it is not part of the
  sources.
\<close>

definition diff :: "string \<Rightarrow> string \<Rightarrow> change list" where
  "diff textA textB = diff_lines (split_lines [] textA) (split_lines [] textB)"

text \<open>The added and the removed records of a comparison.\<close>

fun is_added :: "change \<Rightarrow> bool" where
  "is_added (Added l) = True"
| "is_added c = False"

fun is_removed :: "change \<Rightarrow> bool" where
  "is_removed (Removed l) = True"
| "is_removed c = False"

text \<open>The rows of the left column that a view shows (none when the diff could not be got).\<close>

definition displayed_rows :: "modal_view \<Rightarrow> TFile list" where
  "displayed_rows v = (case v of FailedToGetDiff msg \<Rightarrow> [] | Columns rows markup shown \<Rightarrow> rows)"

text \<open>
  Two states of a modal created for \<open>example_note\<close> and opened: before any row's button
  was pressed, and after the button of the conflicting file's row was pressed.
\<close>

definition example_unselected :: DiffModal where
  "example_unselected = fst (onOpen example_got (new_DiffModal example_note))"

definition example_selected :: DiffModal where
  "example_selected =
     modal (resolveConflict_onClick example_conflict ''markup'' example_unselected)"

section \<open>Properties of the REST data source\<close>

lemma then_catch_Inr: "then_catch p = Inr r \<longleftrightarrow> p = Inr r \<and> status r < 400"
  by (auto simp: then_catch_def then_handler_def catch_handler_def split: sum.splits if_splits)

lemma fst_requestEndpoint:
  "fst (requestEndpoint settings endpoint host) =
     then_catch (requestUrl host (length (issued host))
        \<lparr>req_url = endpoint_url settings (isMobileApp host) endpoint, req_method = ''GET'',
         x_api_key = api_key settings\<rparr>)"
  by (simp add: requestEndpoint_def Let_def)

lemma snd_requestEndpoint:
  "snd (requestEndpoint settings endpoint host) =
     host\<lparr>issued := issued host @
        [\<lparr>req_url = endpoint_url settings (isMobileApp host) endpoint, req_method = ''GET'',
          x_api_key = api_key settings\<rparr>]\<rparr>"
  by (simp add: requestEndpoint_def Let_def)

lemma validated_failure:
  "safeParseAsync schema (json_body response) = ParseFailure issues \<Longrightarrow>
   validated schema response = Inl (Thrown (RestFailure (Text (join [CHR 0x0A] (map message issues)))))"
  by (simp add: validated_def)

lemma validated_after_request:
  "fst (requestEndpoint settings ep host) = Inr response \<Longrightarrow>
   safeParseAsync sch (json_body response) = ParseFailure issues \<Longrightarrow>
   fst (case requestEndpoint settings ep host of
          (Inl error, host') \<Rightarrow> (Inl error, host')
        | (Inr response, host') \<Rightarrow> (validated sch response, host')) =
     Inl (Thrown (RestFailure (Text (join [CHR 0x0A] (map message issues)))))"
  by (cases "requestEndpoint settings ep host") (simp add: validated_failure)

text \<open>
  Claim C1. For each of getAllFolders, getDevices, getConfiguration and getSystemStatus:
  when the request yields a response whose body the method's schema rejects with a list
  of issues, the method raises a \<open>RestFailure\<close> whose message is the issue messages joined
  by line feeds. The result is the raised failure, so no output object, partial or
  otherwise, is returned.
\<close>

theorem validation_failure_raises:
  "(fst (requestEndpoint settings ''/rest/config/folders'' host) = Inr response \<and>
    safeParseAsync folders_schema (json_body response) = ParseFailure issues \<longrightarrow>
    fst (getAllFolders settings folders_schema host) =
      Inl (Thrown (RestFailure (Text (join [CHR 0x0A] (map message issues)))))) \<and>
   (fst (requestEndpoint settings ''/rest/config/devices'' host) = Inr response \<and>
    safeParseAsync devices_schema (json_body response) = ParseFailure issues \<longrightarrow>
    fst (getDevices settings devices_schema host) =
      Inl (Thrown (RestFailure (Text (join [CHR 0x0A] (map message issues)))))) \<and>
   (fst (requestEndpoint settings ''/rest/config'' host) = Inr response \<and>
    safeParseAsync config_schema (json_body response) = ParseFailure issues \<longrightarrow>
    fst (getConfiguration settings config_schema host) =
      Inl (Thrown (RestFailure (Text (join [CHR 0x0A] (map message issues)))))) \<and>
   (fst (requestEndpoint settings ''/rest/system/status'' host) = Inr response \<and>
    safeParseAsync status_schema (json_body response) = ParseFailure issues \<longrightarrow>
    fst (getSystemStatus settings status_schema host) =
      Inl (Thrown (RestFailure (Text (join [CHR 0x0A] (map message issues))))))"
proof (intro conjI impI)
  assume "fst (requestEndpoint settings ''/rest/config/folders'' host) = Inr response \<and>
    safeParseAsync folders_schema (json_body response) = ParseFailure issues"
  then show "fst (getAllFolders settings folders_schema host) =
      Inl (Thrown (RestFailure (Text (join [CHR 0x0A] (map message issues)))))"
    unfolding getAllFolders_def by (simp add: validated_after_request)
next
  assume "fst (requestEndpoint settings ''/rest/config/devices'' host) = Inr response \<and>
    safeParseAsync devices_schema (json_body response) = ParseFailure issues"
  then show "fst (getDevices settings devices_schema host) =
      Inl (Thrown (RestFailure (Text (join [CHR 0x0A] (map message issues)))))"
    unfolding getDevices_def by (simp add: validated_after_request)
next
  assume "fst (requestEndpoint settings ''/rest/config'' host) = Inr response \<and>
    safeParseAsync config_schema (json_body response) = ParseFailure issues"
  then show "fst (getConfiguration settings config_schema host) =
      Inl (Thrown (RestFailure (Text (join [CHR 0x0A] (map message issues)))))"
    unfolding getConfiguration_def by (simp add: validated_after_request)
next
  assume "fst (requestEndpoint settings ''/rest/system/status'' host) = Inr response \<and>
    safeParseAsync status_schema (json_body response) = ParseFailure issues"
  then show "fst (getSystemStatus settings status_schema host) =
      Inl (Thrown (RestFailure (Text (join [CHR 0x0A] (map message issues)))))"
    unfolding getSystemStatus_def by (simp add: validated_after_request)
qed

lemma fst_requestEndpoint_answering:
  "fst (requestEndpoint settings ep (host_answering answer)) = then_catch answer"
  by (simp add: fst_requestEndpoint host_answering_def)

theorem validation_failure_raises_witness:
  "fst (getAllFolders example_settings example_array_schema
          (host_answering (Inr example_object_body))) =
     Inl (Thrown (RestFailure (Text (''Invalid type'' @ [CHR 0x0A] @ ''Invalid length'')))) \<and>
   fst (getDevices example_settings example_array_schema
          (host_answering (Inr example_object_body))) =
     Inl (Thrown (RestFailure (Text (''Invalid type'' @ [CHR 0x0A] @ ''Invalid length'')))) \<and>
   fst (getConfiguration example_settings example_array_schema
          (host_answering (Inr example_object_body))) =
     Inl (Thrown (RestFailure (Text (''Invalid type'' @ [CHR 0x0A] @ ''Invalid length'')))) \<and>
   fst (getSystemStatus example_settings example_array_schema
          (host_answering (Inr example_object_body))) =
     Inl (Thrown (RestFailure (Text (''Invalid type'' @ [CHR 0x0A] @ ''Invalid length''))))"
proof -
  have r: "\<And>ep. fst (requestEndpoint example_settings ep
              (host_answering (Inr example_object_body))) = Inr example_object_body"
    by (simp add: fst_requestEndpoint_answering then_catch_def then_handler_def
        example_object_body_def)
  have p: "safeParseAsync example_array_schema (json_body example_object_body) =
             ParseFailure [\<lparr>message = ''Invalid type''\<rparr>, \<lparr>message = ''Invalid length''\<rparr>]"
    by (simp add: safeParseAsync_def example_array_schema_def example_object_body_def)
  show ?thesis
    using validation_failure_raises
      [where settings = example_settings
         and host = "host_answering (Inr example_object_body)"
         and response = example_object_body
         and issues = "[\<lparr>message = ''Invalid type''\<rparr>, \<lparr>message = ''Invalid length''\<rparr>]"
         and folders_schema = example_array_schema
         and devices_schema = example_array_schema
         and config_schema = example_array_schema
         and status_schema = example_array_schema]
    by (simp add: r p)
qed

text \<open>
  Claim C6. \<open>getFoldersForDevice\<close> leaves the host exactly as \<open>getAllFolders\<close> does: one
  request, to the folders endpoint, and none of its own. Its result is the failure of
  \<open>getAllFolders\<close> unchanged, or else exactly those folders of \<open>getAllFolders\<close>, in their
  order, whose device list has an entry with the given device's \<open>deviceID\<close>.
\<close>

theorem getFoldersForDevice_filters:
  "snd (getFoldersForDevice settings sch device host) = snd (getAllFolders settings sch host) \<and>
   issued (snd (getFoldersForDevice settings sch device host)) =
     issued host @ [\<lparr>req_url = endpoint_url settings (isMobileApp host) ''/rest/config/folders'',
                     req_method = ''GET'', x_api_key = api_key settings\<rparr>] \<and>
   fst (getFoldersForDevice settings sch device host) =
     map_sum id (filter (\<lambda>folder. deviceID device \<in> deviceID ` set (devices folder)))
       (fst (getAllFolders settings sch host))"
proof -
  have f: "\<And>folder. list_ex (\<lambda>d. deviceID d = deviceID device) (devices folder) \<longleftrightarrow>
       deviceID device \<in> deviceID ` set (devices folder)"
    by (force simp: list_ex_iff)
  have s: "snd (getAllFolders settings sch host) = snd (requestEndpoint settings ''/rest/config/folders'' host)"
    by (simp add: getAllFolders_def split: prod.splits sum.splits)
  obtain r h' where g: "getAllFolders settings sch host = (r, h')"
    by (cases "getAllFolders settings sch host")
  have h': "h' = host\<lparr>issued := issued host @
        [\<lparr>req_url = endpoint_url settings (isMobileApp host) ''/rest/config/folders'',
          req_method = ''GET'', x_api_key = api_key settings\<rparr>]\<rparr>"
    using s g by (simp add: snd_requestEndpoint)
  have i: "issued h' = issued host @
        [\<lparr>req_url = endpoint_url settings (isMobileApp host) ''/rest/config/folders'',
          req_method = ''GET'', x_api_key = api_key settings\<rparr>]"
    by (simp add: h')
  show ?thesis
    by (cases r) (simp_all add: getFoldersForDevice_def g f i)
qed

text \<open>
  Claim C2, evaluated where it fails. The host answers with status 403 and the body text
  Forbidden. The \<^verbatim>\<open>then\<close> handler throws \<open>RestFailure (Text ''Forbidden'')\<close>, the \<^verbatim>\<open>catch\<close>
  handler chained after it catches that failure and throws a second \<open>RestFailure\<close> built
  from it: the failure the caller receives carries the first failure, not the body text.
\<close>

theorem http_403_failure_wraps_a_failure:
  "fst (getAllFolders example_settings example_array_schema
          (host_answering (Inr example_forbidden))) =
     Inl (Thrown (RestFailure (ErrorValue (Thrown (RestFailure (Text ''Forbidden'')))))) \<and>
   fst (ping example_settings (host_answering (Inr example_forbidden))) =
     Inl (Thrown (RestFailure (ErrorValue (Thrown (RestFailure (Text ''Forbidden''))))))"
  by (simp add: getAllFolders_def ping_def requestEndpoint_def Let_def host_answering_def
      then_catch_def then_handler_def catch_handler_def example_forbidden_def)

text \<open>
  Claim C5, evaluated where it fails. The host answers with status 200 and the body
  \<^verbatim>\<open>{"ping": "nope"}\<close>. \<open>ping\<close> parses nothing: it returns the member named ping as it
  is, here the string nope, and raises no failure.
\<close>

theorem ping_returns_unvalidated_member:
  "fst (ping example_settings (host_answering (Inr example_wrong_ping))) =
     Inr (Some (JStr ''nope''))"
  by (simp add: ping_def requestEndpoint_def Let_def host_answering_def
      then_catch_def then_handler_def example_wrong_ping_def)

subsection \<open>What holds of every transport failure, and of a valid body\<close>

text \<open>
  When the host's answer to the next request makes the promise chain reject, every method
  rejects with that same error, which is a \<open>RestFailure\<close> built from a caught value; no
  method returns data, and one request is issued, so nothing is retried.
\<close>

lemma requestEndpoint_uniform:
  assumes "\<And>req. requestUrl host (length (issued host)) req = answer"
  shows "requestEndpoint settings ep host =
           (then_catch answer,
            host\<lparr>issued := issued host @
              [\<lparr>req_url = endpoint_url settings (isMobileApp host) ep,
                req_method = ''GET'', x_api_key = api_key settings\<rparr>]\<rparr>)"
  by (simp add: requestEndpoint_def Let_def assms)

lemma transport_failure_never_returns_data:
  assumes a: "\<And>req. requestUrl host (length (issued host)) req = answer"
    and f: "then_catch answer = Inl e"
  shows "fst (ping settings host) = Inl e"
    and "fst (getAllFolders settings folders_schema host) = Inl e"
    and "fst (getFoldersForDevice settings folders_schema' device host) = Inl e"
    and "fst (getDevices settings devices_schema host) = Inl e"
    and "fst (getConfiguration settings config_schema host) = Inl e"
    and "fst (getSystemStatus settings status_schema host) = Inl e"
    and "length (issued (snd (ping settings host))) = Suc (length (issued host))"
    and "length (issued (snd (getAllFolders settings folders_schema host))) =
           Suc (length (issued host))"
    and "\<exists>cause. e = Thrown (RestFailure (ErrorValue cause))"
proof -
  show "fst (ping settings host) = Inl e"
    by (simp add: ping_def requestEndpoint_uniform [OF a] f)
  show "fst (getAllFolders settings folders_schema host) = Inl e"
    by (simp add: getAllFolders_def requestEndpoint_uniform [OF a] f)
  show "fst (getFoldersForDevice settings folders_schema' device host) = Inl e"
    by (simp add: getFoldersForDevice_def getAllFolders_def requestEndpoint_uniform [OF a] f)
  show "fst (getDevices settings devices_schema host) = Inl e"
    by (simp add: getDevices_def requestEndpoint_uniform [OF a] f)
  show "fst (getConfiguration settings config_schema host) = Inl e"
    by (simp add: getConfiguration_def requestEndpoint_uniform [OF a] f)
  show "fst (getSystemStatus settings status_schema host) = Inl e"
    by (simp add: getSystemStatus_def requestEndpoint_uniform [OF a] f)
  show "length (issued (snd (ping settings host))) = Suc (length (issued host))"
    by (simp add: ping_def requestEndpoint_uniform [OF a] f)
  show "length (issued (snd (getAllFolders settings folders_schema host))) =
           Suc (length (issued host))"
    by (simp add: getAllFolders_def requestEndpoint_uniform [OF a] f)
  show "\<exists>cause. e = Thrown (RestFailure (ErrorValue cause))"
    using f by (cases answer)
      (auto simp: then_catch_def then_handler_def catch_handler_def split: if_splits)
qed

text \<open>A body the schema accepts is returned as the schema parsed it.\<close>

lemma valid_body_is_returned:
  assumes "fst (requestEndpoint settings ''/rest/config/folders'' host) = Inr response"
    and "safeParseAsync sch (json_body response) = ParseSuccess out"
  shows "fst (getAllFolders settings sch host) = Inr out"
  using assms unfolding getAllFolders_def
  by (cases "requestEndpoint settings ''/rest/config/folders'' host")
     (simp add: validated_def)

text \<open>On a mobile host the name localhost is replaced by the numeric loopback address.\<close>

lemma mobile_loopback:
  "endpoint_url \<lparr>api_key = k,
       url = Some \<lparr>protocol = pr, ip_address = ''localhost'', port = po\<rparr>\<rparr> True ep =
     pr @ ''://127.0.0.1:'' @ po @ ep"
  by (simp add: endpoint_url_def tmpl_def)

section \<open>Properties of the modals and of the diff engine\<close>

lemma insert_by_mtime:
  "insert_by by_mtime x xs = insort_key (\<lambda>f. mtime (stat f)) x xs"
  by (induction xs) (simp_all add: by_mtime_def)

lemma js_sort_by_mtime: "js_sort by_mtime xs = sort_key (\<lambda>f. mtime (stat f)) xs"
  by (induction xs) (simp_all add: js_sort_def insert_by_mtime)

lemma onOpen_Files:
  "onOpen \<lparr>got_originalFile = orig, got_conflictingFiles = Files fs\<rparr> m =
     (m\<lparr>originalFile := orig, conflictingFiles := Files (js_sort by_mtime fs)\<rparr>,
      Columns (js_sort by_mtime fs) (case d2hUI m of None \<Rightarrow> [] | Some markup \<Rightarrow> markup) orig)"
  by (simp add: onOpen_def Let_def)

text \<open>
  Claim C8. Whenever the controller answers with a list of conflicting files, the rows
  shown (and the list the modal keeps) are that list sorted by last-modified time,
  ascending: the times of the rows are in non-decreasing order, the rows are a permutation
  of the input, and the order is the stable sort of the input, so it is determined by the
  input list alone.
\<close>

theorem conflicting_files_displayed_by_mtime:
  "displayed_rows (snd (onOpen \<lparr>got_originalFile = orig, got_conflictingFiles = Files fs\<rparr> m)) =
     sort_key (\<lambda>f. mtime (stat f)) fs \<and>
   conflictingFiles (fst (onOpen \<lparr>got_originalFile = orig, got_conflictingFiles = Files fs\<rparr> m)) =
     Files (sort_key (\<lambda>f. mtime (stat f)) fs) \<and>
   sorted (map (\<lambda>f. mtime (stat f))
     (displayed_rows (snd (onOpen \<lparr>got_originalFile = orig, got_conflictingFiles = Files fs\<rparr> m)))) \<and>
   mset (displayed_rows (snd (onOpen \<lparr>got_originalFile = orig, got_conflictingFiles = Files fs\<rparr> m))) =
     mset fs"
  by (simp add: onOpen_Files displayed_rows_def js_sort_by_mtime)

text \<open>
  Claim C10. For a non-empty listing \<open>f # fs\<close> the conflict files modal shows one row per
  element of \<open>fs\<close>, in order, each labelled with that file's name and comparing it with
  \<open>f\<close> as the original. Nothing in this depends on the names of the files. With exactly
  one file no row is shown.
\<close>

theorem first_file_is_the_original:
  "ConflictFilesModal_onOpen (f # fs) =
     map (\<lambda>g. \<lparr>row_text = name g, click_original = Some f, click_conflicting = g\<rparr>) fs \<and>
   ConflictFilesModal_onOpen [f] = []"
  by (simp add: ConflictFilesModal_onOpen_def first_element_def slice_def)

lemma diff_lines_same: "diff_lines xs xs = map Unchanged xs"
  by (induction xs) simp_all

text \<open>
  Claim C9. For every text \<open>a\<close>, \<open>diff a a\<close> consists of unchanged records only, one per
  line of \<open>a\<close>: it has no added and no removed record. \<open>diff\<close> is a total function of its
  two arguments; on two empty texts its result is empty.
\<close>

theorem diff_of_equal_texts:
  "diff a a = map Unchanged (split_lines [] a) \<and>
   filter is_added (diff a a) = [] \<and>
   filter is_removed (diff a a) = [] \<and>
   diff [] [] = []"
  by (simp add: diff_def diff_lines_same filter_empty_conv)

section \<open>Properties of the resolution buttons\<close>

lemma example_unselected_eq:
  "example_unselected =
     \<lparr>modal_file = example_note, originalFile = example_note,
      conflictingFiles = Files [example_conflict], currentConflictFile = example_note,
      d2hUI = None, d2hColorBlind = False\<rparr>"
  by (simp add: example_unselected_def example_got_def onOpen_def Let_def new_DiffModal_def
      js_sort_def)

lemma example_selected_eq:
  "example_selected =
     \<lparr>modal_file = example_note, originalFile = example_note,
      conflictingFiles = Files [example_conflict], currentConflictFile = example_conflict,
      d2hUI = Some ''markup'', d2hColorBlind = False\<rparr>"
  by (simp add: example_selected_def example_unselected_eq resolveConflict_onClick_def)

lemma path_example_note: "path example_note = ''note.md''"
  by (simp add: example_note_def)

lemma path_example_conflict:
  "path example_conflict = ''note.sync-conflict-20240101-113000-ABCDEF.md''"
  by (simp add: example_conflict_def)

lemma settle_acceptLeft:
  "settle fs (calls (acceptLeft_onClick m)) v =
     (settled (VaultDelete (originalFile m)) (fst (delete_file fs (originalFile m) v)) @
      settled (RenameFile (currentConflictFile m) (path (originalFile m)))
        (fst (rename_file fs (currentConflictFile m) (path (originalFile m))
                (snd (delete_file fs (originalFile m) v)))),
      snd (rename_file fs (currentConflictFile m) (path (originalFile m))
                (snd (delete_file fs (originalFile m) v))))"
  by (simp add: acceptLeft_onClick_def Let_def split: prod.splits)

lemma settle_acceptOriginal:
  "settle fs (calls (acceptOriginal_onClick m)) v =
     (settled (VaultDelete (currentConflictFile m))
        (fst (delete_file fs (currentConflictFile m) v)),
      snd (delete_file fs (currentConflictFile m) v))"
  by (simp add: acceptOriginal_onClick_def split: prod.splits)

lemma file_ops_acceptLeft:
  "filter is_file_op (calls (acceptLeft_onClick m)) =
     [VaultDelete (originalFile m),
      RenameFile (currentConflictFile m) (path (originalFile m))]"
  by (simp add: acceptLeft_onClick_def Let_def)

lemma file_ops_acceptOriginal:
  "filter is_file_op (calls (acceptOriginal_onClick m)) = [VaultDelete (currentConflictFile m)]"
  by (simp add: acceptOriginal_onClick_def)

lemma delete_example_note:
  "delete_file path_store example_note example_vault =
     (Fulfilled, example_vault(''note.md'' := None))"
  by (simp add: path_store_def example_vault_def path_example_note)

lemma delete_failing_store:
  "delete_file rename_failing_store = delete_file path_store"
  by (simp add: rename_failing_store_def)

lemma rename_failing_store:
  "rename_file rename_failing_store f p v = (Rejected ''rename failed'', v)"
  by (simp add: rename_failing_store_def)

text \<open>
  Claim C3, evaluated where it fails. The modal shows \<open>example_note\<close> as the original and
  \<open>example_conflict\<close> as the chosen file, and Accept left is pressed. The handler calls
  \<^verbatim>\<open>vault.delete\<close> and, without awaiting its promise, \<^verbatim>\<open>fileManager.renameFile\<close> with
  the original's path as target: the rename is issued in the same block as the delete, and
  the delete settles only after the block, hence after the rename was issued.
\<close>

theorem acceptLeft_rename_issued_while_delete_pending:
  "fst (run_handler path_store (calls (acceptLeft_onClick example_selected)) example_vault) =
     [Issued Close,
      Issued (NewNotice ''Resolving conflict : Accepting left'' 5000),
      Issued (SetTimeout (NewNotice ''Deleting note.md...'' 5000) 500),
      Issued (VaultDelete example_note),
      Issued (SetTimeout
        (NewNotice ''Renaming note.sync-conflict-20240101-113000-ABCDEF.md to note.md...'' 5000)
        1000),
      Issued (RenameFile example_conflict ''note.md''),
      Issued (SetTimeout (NewNotice ''Conflict resolved : Accepted left'' 5000) 2000),
      Issued (NewDiffModal example_conflict),
      Settled (VaultDelete example_note) Fulfilled,
      Settled (RenameFile example_conflict ''note.md'') Fulfilled]"
proof -
  have r: "rename_file path_store example_conflict ''note.md''
             (example_vault(''note.md'' := None)) =
           (Fulfilled, example_vault(''note.md'' := None,
              ''note.sync-conflict-20240101-113000-ABCDEF.md'' := None,
              ''note.md'' := Some ''other''))"
    by (simp add: path_store_def example_vault_def path_example_conflict)
  have s: "fst (settle path_store (calls (acceptLeft_onClick example_selected)) example_vault) =
      [Settled (VaultDelete example_note) Fulfilled,
       Settled (RenameFile example_conflict ''note.md'') Fulfilled]"
    by (simp add: settle_acceptLeft example_selected_eq path_example_note delete_example_note r
        settled_def)
  have c: "map Issued (calls (acceptLeft_onClick example_selected)) =
     [Issued Close,
      Issued (NewNotice ''Resolving conflict : Accepting left'' 5000),
      Issued (SetTimeout (NewNotice ''Deleting note.md...'' 5000) 500),
      Issued (VaultDelete example_note),
      Issued (SetTimeout
        (NewNotice ''Renaming note.sync-conflict-20240101-113000-ABCDEF.md to note.md...'' 5000)
        1000),
      Issued (RenameFile example_conflict ''note.md''),
      Issued (SetTimeout (NewNotice ''Conflict resolved : Accepted left'' 5000) 2000),
      Issued (NewDiffModal example_conflict)]"
    by (simp add: acceptLeft_onClick_def Let_def example_selected_eq path_example_note
        path_example_conflict)
  show ?thesis
    unfolding run_handler_def using s c
    by (cases "settle path_store (calls (acceptLeft_onClick example_selected)) example_vault")
       simp
qed

text \<open>
  Claim C4 fails as stated. On a store whose rename is rejected after the delete was
  fulfilled, the handler returns nothing: no \<open>Failure\<close> is produced, and the rejection of
  the rename has no handler.
\<close>

theorem acceptLeft_rename_failure_counterexample:
  "fst (run_handler rename_failing_store (calls (acceptLeft_onClick example_selected))
          example_vault) =
     map Issued (calls (acceptLeft_onClick example_selected)) @
     [Settled (VaultDelete example_note) Fulfilled,
      Settled (RenameFile example_conflict ''note.md'') (Rejected ''rename failed''),
      UnhandledRejection (RenameFile example_conflict ''note.md'')] \<and>
   returned (acceptLeft_onClick example_selected) = None"
proof -
  have s: "fst (settle rename_failing_store (calls (acceptLeft_onClick example_selected))
                 example_vault) =
      [Settled (VaultDelete example_note) Fulfilled,
       Settled (RenameFile example_conflict ''note.md'') (Rejected ''rename failed''),
       UnhandledRejection (RenameFile example_conflict ''note.md'')]"
    by (simp add: settle_acceptLeft example_selected_eq path_example_note delete_failing_store
        delete_example_note rename_failing_store settled_def)
  have r: "returned (acceptLeft_onClick example_selected) = None"
    by (simp add: acceptLeft_onClick_def Let_def)
  show ?thesis
    unfolding run_handler_def using s r
    by (cases "settle rename_failing_store (calls (acceptLeft_onClick example_selected))
                 example_vault") simp
qed

text \<open>
  Claim C4, amended. For every Accept left resolution in which the delete of the original
  is fulfilled and the rename of the chosen file is then rejected, the handler returns
  nothing (no \<open>Failure\<close>) and the rejection stays unhandled; the file operations issued
  are exactly the one delete and the one rename, so nothing is rolled back or retried, and
  the store is left as the rejected rename left it.
\<close>

theorem acceptLeft_rename_failure_unreported:
  assumes "fst (delete_file fs (originalFile m) v) = Fulfilled"
    and "fst (rename_file fs (currentConflictFile m) (path (originalFile m))
                (snd (delete_file fs (originalFile m) v))) = Rejected why"
  shows "returned (acceptLeft_onClick m) = None \<and>
         filter is_file_op (calls (acceptLeft_onClick m)) =
           [VaultDelete (originalFile m),
            RenameFile (currentConflictFile m) (path (originalFile m))] \<and>
         fst (run_handler fs (calls (acceptLeft_onClick m)) v) =
           map Issued (calls (acceptLeft_onClick m)) @
           [Settled (VaultDelete (originalFile m)) Fulfilled,
            Settled (RenameFile (currentConflictFile m) (path (originalFile m))) (Rejected why),
            UnhandledRejection (RenameFile (currentConflictFile m) (path (originalFile m)))] \<and>
         snd (run_handler fs (calls (acceptLeft_onClick m)) v) =
           snd (rename_file fs (currentConflictFile m) (path (originalFile m))
                  (snd (delete_file fs (originalFile m) v)))"
proof -
  have r: "returned (acceptLeft_onClick m) = None"
    by (simp add: acceptLeft_onClick_def Let_def)
  have e: "run_handler fs (calls (acceptLeft_onClick m)) v =
      (map Issued (calls (acceptLeft_onClick m)) @
           [Settled (VaultDelete (originalFile m)) Fulfilled,
            Settled (RenameFile (currentConflictFile m) (path (originalFile m))) (Rejected why),
            UnhandledRejection (RenameFile (currentConflictFile m) (path (originalFile m)))],
       snd (rename_file fs (currentConflictFile m) (path (originalFile m))
                  (snd (delete_file fs (originalFile m) v))))"
    unfolding run_handler_def settle_acceptLeft using assms by (simp add: settled_def)
  show ?thesis using r e by (simp add: file_ops_acceptLeft)
qed

theorem acceptLeft_rename_failure_unreported_witness:
  "returned (acceptLeft_onClick example_selected) = None \<and>
   filter is_file_op (calls (acceptLeft_onClick example_selected)) =
     [VaultDelete example_note, RenameFile example_conflict ''note.md''] \<and>
   snd (run_handler rename_failing_store (calls (acceptLeft_onClick example_selected))
          example_vault) ''note.md'' = None \<and>
   snd (run_handler rename_failing_store (calls (acceptLeft_onClick example_selected))
          example_vault) ''note.sync-conflict-20240101-113000-ABCDEF.md'' = Some ''other''"
proof -
  have d: "fst (delete_file rename_failing_store (originalFile example_selected) example_vault) =
             Fulfilled"
    by (simp add: example_selected_eq delete_failing_store delete_example_note)
  have n: "fst (rename_file rename_failing_store (currentConflictFile example_selected)
             (path (originalFile example_selected))
             (snd (delete_file rename_failing_store (originalFile example_selected)
                     example_vault))) = Rejected ''rename failed''"
    by (simp add: rename_failing_store)
  note t = acceptLeft_rename_failure_unreported [OF d n]
  have v: "snd (run_handler rename_failing_store (calls (acceptLeft_onClick example_selected))
          example_vault) = example_vault(''note.md'' := None)"
    using t
    by (simp add: example_selected_eq path_example_note rename_failing_store
        delete_failing_store delete_example_note)
  have a: "returned (acceptLeft_onClick example_selected) = None \<and>
      filter is_file_op (calls (acceptLeft_onClick example_selected)) =
        [VaultDelete example_note, RenameFile example_conflict ''note.md'']"
    using t by (simp add: example_selected_eq path_example_note)
  show ?thesis
    unfolding v using a by (simp add: example_vault_def)
qed

text \<open>
  Claim C7, evaluated where it fails. A modal is created for \<open>example_note\<close> and opened;
  the controller names \<open>example_note\<close> as the original. No row's button is pressed, so
  \<open>currentConflictFile\<close> is still the file the modal was created for. Accept original
  then deletes that file, which is the original.
\<close>

theorem acceptOriginal_without_selection_deletes_original:
  "originalFile example_unselected = example_note \<and>
   filter is_file_op (calls (acceptOriginal_onClick example_unselected)) =
     [VaultDelete example_note] \<and>
   example_vault ''note.md'' = Some ''one'' \<and>
   snd (run_handler path_store (calls (acceptOriginal_onClick example_unselected))
          example_vault) ''note.md'' = None"
proof -
  have s: "snd (run_handler path_store (calls (acceptOriginal_onClick example_unselected))
          example_vault) = example_vault(''note.md'' := None)"
    unfolding run_handler_def settle_acceptOriginal
    by (simp add: example_unselected_eq delete_example_note)
  show ?thesis
    unfolding s
    by (simp add: file_ops_acceptOriginal example_unselected_eq example_vault_def)
qed

subsection \<open>What holds of every press of the two buttons\<close>

text \<open>
  Accept left always issues the delete of the original before the rename of the chosen
  file, and both settle after every call of the handler has been issued.
\<close>

lemma acceptLeft_issues_delete_then_rename:
  "run_handler fs (calls (acceptLeft_onClick m)) v =
     (map Issued (calls (acceptLeft_onClick m)) @
      settled (VaultDelete (originalFile m)) (fst (delete_file fs (originalFile m) v)) @
      settled (RenameFile (currentConflictFile m) (path (originalFile m)))
        (fst (rename_file fs (currentConflictFile m) (path (originalFile m))
                (snd (delete_file fs (originalFile m) v)))),
      snd (rename_file fs (currentConflictFile m) (path (originalFile m))
                (snd (delete_file fs (originalFile m) v))))"
  unfolding run_handler_def settle_acceptLeft by simp

text \<open>
  Accept original issues one file operation, the delete of \<open>currentConflictFile\<close>, and
  leaves the modal's fields as they were; on the reference store every other path keeps its
  contents. So the original is untouched whenever the chosen file's path is not its own.
\<close>

lemma acceptOriginal_keeps_other_paths:
  assumes "p \<noteq> path (currentConflictFile m)"
  shows "snd (run_handler path_store (calls (acceptOriginal_onClick m)) v) p = v p"
    and "filter is_file_op (calls (acceptOriginal_onClick m)) =
           [VaultDelete (currentConflictFile m)]"
    and "modal (acceptOriginal_onClick m) = m"
proof -
  show "snd (run_handler path_store (calls (acceptOriginal_onClick m)) v) p = v p"
    unfolding run_handler_def settle_acceptOriginal using assms
    by (simp add: path_store_def)
  show "filter is_file_op (calls (acceptOriginal_onClick m)) =
           [VaultDelete (currentConflictFile m)]"
    by (rule file_ops_acceptOriginal)
  show "modal (acceptOriginal_onClick m) = m"
    by (simp add: acceptOriginal_onClick_def)
qed

end
